theory Spec2Isabelle
  imports Complex_Main
begin

section \<open>Python values and errors\<close>

text \<open>
  The notebook works with numbers, strings, tuples, lists, dictionaries, the two functions
  it defines itself, and objects of the external simulation libraries. A number
  \<open>PyNum r\<close> is a Python int or finite float of value \<open>r\<close>. Objects of the external
  libraries are opaque: \<open>PyExt e\<close> only records where the object came from (a module, an
  attribute of an object, the result of a call, an item of an object).
\<close>

datatype pyval =
    PyNum real
  | PyStr string
  | PyNone
  | PyTuple "pyval list"
  | PyList "pyval list"
  | PyDict "(pyval \<times> pyval) list"
  | PyFun string
  | PyExt ext
and ext =
    Module string
  | Attr ext string
  | Result ext
  | Item ext pyval

datatype error =
    NameError
  | TypeError
  | ValueError
  | ZeroDivisionError
  | Unmodelled

type_synonym globals = "string \<rightharpoonup> pyval"

definition bind_err :: "error + 'a \<Rightarrow> ('a \<Rightarrow> error + 'b) \<Rightarrow> error + 'b" where
  "bind_err m f = (case m of Inl e \<Rightarrow> Inl e | Inr a \<Rightarrow> f a)"

definition lookup :: "globals \<Rightarrow> string \<Rightarrow> error + pyval" where
  "lookup g n = (case g n of None \<Rightarrow> Inl NameError | Some v \<Rightarrow> Inr v)"

text \<open>
  Iterating a value, as tuple unpacking does: tuples, lists, strings (character by
  character) and dictionaries (their keys) are iterable; numbers, \<^verbatim>\<open>None\<close> and functions
  raise \<^verbatim>\<open>TypeError\<close>. What an external object yields is not known here.
\<close>

fun iter_values :: "pyval \<Rightarrow> error + pyval list" where
  "iter_values (PyTuple vs) = Inr vs"
| "iter_values (PyList vs) = Inr vs"
| "iter_values (PyStr s) = Inr (map (\<lambda>c. PyStr [c]) s)"
| "iter_values (PyDict kvs) = Inr (map fst kvs)"
| "iter_values (PyExt e) = Inl Unmodelled"
| "iter_values v = Inl TypeError"

text \<open>\<^verbatim>\<open>x, y, z = p\<close>: exactly three values, else \<^verbatim>\<open>ValueError\<close>.\<close>

definition unpack3 :: "pyval \<Rightarrow> error + pyval \<times> pyval \<times> pyval" where
  "unpack3 p = bind_err (iter_values p)
     (\<lambda>vs. case vs of [x, y, z] \<Rightarrow> Inr (x, y, z) | _ \<Rightarrow> Inl ValueError)"

text \<open>
  \<^verbatim>\<open>a < b\<close>. Two numbers compare by value. A number against a string, tuple, list,
  dictionary, \<^verbatim>\<open>None\<close> or function raises \<^verbatim>\<open>TypeError\<close>. Comparisons with an external
  object, and between two values that are not numbers, are outside the modelled fragment
  (the two predicates always compare against a numeric literal).
\<close>

definition py_lt :: "pyval \<Rightarrow> pyval \<Rightarrow> error + bool" where
  "py_lt v w =
     (case v of
        PyNum a \<Rightarrow>
          (case w of PyNum b \<Rightarrow> Inr (a < b) | PyExt e \<Rightarrow> Inl Unmodelled | _ \<Rightarrow> Inl TypeError)
      | PyExt e \<Rightarrow> Inl Unmodelled
      | _ \<Rightarrow>
          (case w of PyNum b \<Rightarrow> Inl TypeError | _ \<Rightarrow> Inl Unmodelled))"

text \<open>\<^verbatim>\<open>a > b\<close> on numbers is \<^verbatim>\<open>b < a\<close>.\<close>

definition py_gt :: "pyval \<Rightarrow> pyval \<Rightarrow> error + bool" where
  "py_gt a b = py_lt b a"

text \<open>The builtin \<^verbatim>\<open>abs\<close>.\<close>

fun py_abs :: "pyval \<Rightarrow> error + pyval" where
  "py_abs (PyNum a) = Inr (PyNum \<bar>a\<bar>)"
| "py_abs (PyExt e) = Inl Unmodelled"
| "py_abs v = Inl TypeError"

text \<open>
  \<^verbatim>\<open>a or b\<close> and \<^verbatim>\<open>a and b\<close> in a condition: the right operand is evaluated only when
  the left one does not decide, so an error of the right operand is raised only then.
\<close>

definition py_or :: "error + bool \<Rightarrow> error + bool \<Rightarrow> error + bool" where
  "py_or a b = bind_err a (\<lambda>c. if c then Inr True else b)"

definition py_and :: "error + bool \<Rightarrow> error + bool \<Rightarrow> error + bool" where
  "py_and a b = bind_err a (\<lambda>c. if c then b else Inr False)"

section \<open>Float literals\<close>

text \<open>
  A float literal denotes the binary64 number nearest to the decimal it writes.
  \<open>b64 m e\<close> is the number \<open>m / 2 ^ e\<close>. For \<open>2 ^ 52 < m < 2 ^ 53\<close> it is a binary64
  number, the binary64 numbers next to it are \<open>b64 (m - 1) e\<close> and \<open>b64 (m + 1) e\<close>, and
  it is the value of a literal that writes the decimal \<open>d\<close> when \<open>d\<close> is less than half
  a step, \<open>1 / 2 ^ (e + 1)\<close>, away from it.
\<close>

definition b64 :: "int \<Rightarrow> nat \<Rightarrow> real" where
  "b64 m e = real_of_int m / 2 ^ e"

definition is_binary64_of :: "int \<Rightarrow> nat \<Rightarrow> real \<Rightarrow> bool" where
  "is_binary64_of m e d \<longleftrightarrow> 2 ^ 52 < m \<and> m < 2 ^ 53 \<and> \<bar>b64 m e - d\<bar> < 1 / 2 ^ (e + 1)"

text \<open>
  The values of the literals \<^verbatim>\<open>60e-9\<close> and \<^verbatim>\<open>20e-9\<close> that the two predicates compare
  against, and the float just below \<^verbatim>\<open>20e-9\<close>.
\<close>

definition float_60e_9 :: real where
  "float_60e_9 = b64 4533471823554859 76"

definition float_20e_9 :: real where
  "float_20e_9 = b64 6044629098073146 78"

definition float_20e_9_below :: real where
  "float_20e_9_below = b64 6044629098073145 78"

section \<open>The two spatial predicates\<close>

text \<open>
  \<^verbatim>\<open>
  def Ms_func(p):
      x, y, z = p
      if x > 0 or abs(y) < 20e-9:
          return Ms
      return 0
  \<close>
  \<^verbatim>\<open>Ms\<close> is read from the global namespace when the branch runs. The function is given
  the globals and returns them with its result; no statement of the body writes a global.
  The threshold is written as the decimal \<open>20 / 10 ^ 9\<close>. It lies strictly between
  \<open>float_20e_9\<close>, the value of the literal, and \<open>float_20e_9_below\<close>, the float just
  below it, so that a comparison with either has the same result for every int and every
  float.
\<close>

definition Ms_func :: "globals \<Rightarrow> pyval \<Rightarrow> (error + pyval) \<times> globals" where
  "Ms_func g p =
     (bind_err (unpack3 p) (\<lambda>(x, y, z).
        bind_err (py_or (py_gt x (PyNum 0))
                        (bind_err (py_abs y) (\<lambda>a. py_lt a (PyNum (20 / 10 ^ 9)))))
          (\<lambda>c. if c then lookup g ''Ms'' else Inr (PyNum 0))),
      g)"

text \<open>
  \<^verbatim>\<open>
  def init_m(p):
      x, y, z = p
      if -60e-9 < x < -20e-9:
          return (0, 0, -1)
      return (0, 0, 1)
  \<close>
  The chained comparison is \<^verbatim>\<open>-60e-9 < x and x < -20e-9\<close>. The thresholds are the
  values of the literals, negated: the two floats themselves are outside the range.
\<close>

definition init_m :: "globals \<Rightarrow> pyval \<Rightarrow> (error + pyval) \<times> globals" where
  "init_m g p =
     (bind_err (unpack3 p) (\<lambda>(x, y, z).
        bind_err (py_and (py_lt (PyNum (- float_60e_9)) x)
                         (py_lt x (PyNum (- float_20e_9))))
          (\<lambda>c. if c then Inr (PyTuple [PyNum 0, PyNum 0, PyNum (- 1)])
                else Inr (PyTuple [PyNum 0, PyNum 0, PyNum 1]))),
      g)"

text \<open>A position: a tuple of three numbers.\<close>

definition position :: "real \<Rightarrow> real \<Rightarrow> real \<Rightarrow> pyval" where
  "position x y z = PyTuple [PyNum x, PyNum y, PyNum z]"

text \<open>The value the notebook gives \<^verbatim>\<open>Ms\<close>: \<^verbatim>\<open>Ms = 5.8e5\<close>.\<close>

definition Ms_value :: real where
  "Ms_value = 5.8 * 10 ^ 5"

section \<open>The notebook as a program\<close>

text \<open>
  The code cells of the notebook are straight-line Python: imports, assignments,
  attribute assignments, expression statements, two function definitions and one IPython
  magic. Expressions are literals, names, tuples, lists, dictionaries, attribute accesses,
  calls with positional and keyword arguments, subscripts, \<^verbatim>\<open>+\<close>, \<^verbatim>\<open>/\<close> and unary
  minus.
\<close>

datatype expr =
    Num real
  | Str string
  | TrueLit
  | Name string
  | Tuple "expr list"
  | ListLit "expr list"
  | DictLit "(expr \<times> expr) list"
  | Attribute expr string
  | Call expr "expr list" "(string \<times> expr) list"
  | Subscript expr expr
  | Add expr expr
  | Div expr expr
  | Neg expr

datatype stmt =
    Magic string
  | Import string string
  | Assign string expr
  | SetAttribute expr string expr
  | Expr expr
  | FunDef string

text \<open>
  What a run leaves behind: the global namespace, and a log of the bindings of global
  names and of the operations handed to the external libraries, in the order they happen.
\<close>

datatype event =
    Bind string
  | Called ext "pyval list" "(string \<times> pyval) list"
  | AttrSet ext string pyval

record nb_state =
  globals :: globals
  log :: "event list"

definition init_state :: nb_state where
  "init_state = \<lparr>globals = Map.empty, log = []\<rparr>"

text \<open>
  Arithmetic. Numbers are computed; an operation with an external object as an operand is
  carried out by that object (\<^verbatim>\<open>__add__\<close>, \<^verbatim>\<open>__radd__\<close>, \<^verbatim>\<open>__truediv__\<close>,
  \<^verbatim>\<open>__rtruediv__\<close>, \<^verbatim>\<open>__neg__\<close>) and is logged as a call of it. Other operand types
  (sequence concatenation and the like) do not occur in the notebook and are not modelled.
\<close>

definition ext_op :: "ext \<Rightarrow> string \<Rightarrow> pyval list \<Rightarrow> pyval \<times> event list" where
  "ext_op e m args = (PyExt (Result (Attr e m)), [Called (Attr e m) args []])"

definition py_add :: "pyval \<Rightarrow> pyval \<Rightarrow> error + pyval \<times> event list" where
  "py_add v w =
     (case v of
        PyExt e \<Rightarrow> Inr (ext_op e ''__add__'' [w])
      | PyNum a \<Rightarrow>
          (case w of
             PyNum b \<Rightarrow> Inr (PyNum (a + b), [])
           | PyExt e \<Rightarrow> Inr (ext_op e ''__radd__'' [v])
           | _ \<Rightarrow> Inl TypeError)
      | _ \<Rightarrow>
          (case w of PyExt e \<Rightarrow> Inr (ext_op e ''__radd__'' [v]) | _ \<Rightarrow> Inl Unmodelled))"

definition py_div :: "pyval \<Rightarrow> pyval \<Rightarrow> error + pyval \<times> event list" where
  "py_div v w =
     (case v of
        PyExt e \<Rightarrow> Inr (ext_op e ''__truediv__'' [w])
      | PyNum a \<Rightarrow>
          (case w of
             PyNum b \<Rightarrow> (if b = 0 then Inl ZeroDivisionError else Inr (PyNum (a / b), []))
           | PyExt e \<Rightarrow> Inr (ext_op e ''__rtruediv__'' [v])
           | _ \<Rightarrow> Inl TypeError)
      | _ \<Rightarrow>
          (case w of PyExt e \<Rightarrow> Inr (ext_op e ''__rtruediv__'' [v]) | _ \<Rightarrow> Inl TypeError))"

definition py_neg :: "pyval \<Rightarrow> error + pyval \<times> event list" where
  "py_neg v =
     (case v of
        PyNum a \<Rightarrow> Inr (PyNum (- a), [])
      | PyExt e \<Rightarrow> Inr (ext_op e ''__neg__'' [])
      | _ \<Rightarrow> Inl TypeError)"

text \<open>
  Calling a function the notebook defines. Both take one parameter \<^verbatim>\<open>p\<close>, given by
  position or by name; any other argument list raises \<^verbatim>\<open>TypeError\<close>. The body runs in
  the current globals.
\<close>

definition apply_def :: "string \<Rightarrow> globals \<Rightarrow> pyval \<Rightarrow> error + pyval" where
  "apply_def f g p =
     (if f = ''Ms_func'' then fst (Ms_func g p)
      else if f = ''init_m'' then fst (init_m g p)
      else Inl Unmodelled)"

definition call_def ::
  "string \<Rightarrow> globals \<Rightarrow> pyval list \<Rightarrow> (string \<times> pyval) list \<Rightarrow> error + pyval" where
  "call_def f g args kws =
     (case (args, kws) of
        ([p], []) \<Rightarrow> apply_def f g p
      | ([], [(k, p)]) \<Rightarrow> (if k = ''p'' then apply_def f g p else Inl TypeError)
      | _ \<Rightarrow> Inl TypeError)"

text \<open>
  Evaluating an expression gives its value and the events of the evaluation: the callee
  first, then positional arguments left to right, then keyword arguments, then the call.
  An attribute of an external object and the result of calling one are external objects.
  \<^verbatim>\<open>True\<close> is the number 1. Attributes and items of values that are not external
  objects do not occur in the notebook and are not modelled; calling a number, a string or
  a container raises \<^verbatim>\<open>TypeError\<close>.
\<close>

fun sequence :: "(error + 'a \<times> event list) list \<Rightarrow> error + 'a list \<times> event list" where
  "sequence [] = Inr ([], [])"
| "sequence (r # rs) =
     bind_err r (\<lambda>(v, l1). bind_err (sequence rs) (\<lambda>(vs, l2). Inr (v # vs, l1 @ l2)))"

fun eval :: "globals \<Rightarrow> expr \<Rightarrow> error + pyval \<times> event list" where
  "eval g (Num r) = Inr (PyNum r, [])"
| "eval g (Str s) = Inr (PyStr s, [])"
| "eval g TrueLit = Inr (PyNum 1, [])"
| "eval g (Name n) = bind_err (lookup g n) (\<lambda>v. Inr (v, []))"
| "eval g (Tuple es) = bind_err (sequence (map (eval g) es)) (\<lambda>(vs, l). Inr (PyTuple vs, l))"
| "eval g (ListLit es) = bind_err (sequence (map (eval g) es)) (\<lambda>(vs, l). Inr (PyList vs, l))"
| "eval g (DictLit kes) =
     bind_err (sequence (map (\<lambda>(ke, e).
         bind_err (eval g ke) (\<lambda>(k, l1).
         bind_err (eval g e) (\<lambda>(v, l2). Inr ((k, v), l1 @ l2)))) kes))
       (\<lambda>(kvs, l). Inr (PyDict kvs, l))"
| "eval g (Attribute e a) =
     bind_err (eval g e) (\<lambda>(v, l).
       case v of PyExt x \<Rightarrow> Inr (PyExt (Attr x a), l) | _ \<Rightarrow> Inl Unmodelled)"
| "eval g (Call f args kws) =
     bind_err (eval g f) (\<lambda>(fv, l1).
     bind_err (sequence (map (eval g) args)) (\<lambda>(avs, l2).
     bind_err (sequence (map (\<lambda>(k, e). bind_err (eval g e) (\<lambda>(v, l). Inr ((k, v), l))) kws))
       (\<lambda>(kvs, l3).
         case fv of
           PyExt x \<Rightarrow> Inr (PyExt (Result x), l1 @ l2 @ l3 @ [Called x avs kvs])
         | PyFun n \<Rightarrow> bind_err (call_def n g avs kvs) (\<lambda>v. Inr (v, l1 @ l2 @ l3))
         | _ \<Rightarrow> Inl TypeError)))"
| "eval g (Subscript e k) =
     bind_err (eval g e) (\<lambda>(v, l1).
     bind_err (eval g k) (\<lambda>(kv, l2).
       case v of
         PyExt x \<Rightarrow>
           Inr (PyExt (Item x kv), l1 @ l2 @ [Called (Attr x ''__getitem__'') [kv] []])
       | _ \<Rightarrow> Inl Unmodelled))"
| "eval g (Add a b) =
     bind_err (eval g a) (\<lambda>(v, l1).
     bind_err (eval g b) (\<lambda>(w, l2).
     bind_err (py_add v w) (\<lambda>(r, l3). Inr (r, l1 @ l2 @ l3))))"
| "eval g (Div a b) =
     bind_err (eval g a) (\<lambda>(v, l1).
     bind_err (eval g b) (\<lambda>(w, l2).
     bind_err (py_div v w) (\<lambda>(r, l3). Inr (r, l1 @ l2 @ l3))))"
| "eval g (Neg a) =
     bind_err (eval g a) (\<lambda>(v, l1).
     bind_err (py_neg v) (\<lambda>(r, l2). Inr (r, l1 @ l2)))"

text \<open>
  Statements. An import binds the module under its alias, an assignment binds the value
  of its right-hand side, a \<^verbatim>\<open>def\<close> binds the function; each binding is logged. An
  attribute assignment evaluates the right-hand side, then the object, and hands the
  assignment to the external object: it binds no global name. An expression statement is
  evaluated for its events. The IPython magic configures the display and touches neither
  the globals nor the libraries' objects. The names IPython keeps for itself in the
  namespace (\<^verbatim>\<open>_\<close>, \<^verbatim>\<open>In\<close>, \<^verbatim>\<open>Out\<close>) are not part of the model.
\<close>

definition bind_global :: "string \<Rightarrow> pyval \<Rightarrow> nb_state \<Rightarrow> nb_state" where
  "bind_global n v s = s\<lparr>globals := (globals s)(n \<mapsto> v), log := log s @ [Bind n]\<rparr>"

definition logged :: "event list \<Rightarrow> nb_state \<Rightarrow> nb_state" where
  "logged l s = s\<lparr>log := log s @ l\<rparr>"

fun exec :: "stmt \<Rightarrow> nb_state \<Rightarrow> error + nb_state" where
  "exec (Magic m) s = Inr s"
| "exec (Import m n) s = Inr (bind_global n (PyExt (Module m)) s)"
| "exec (Assign n e) s =
     bind_err (eval (globals s) e) (\<lambda>(v, l). Inr (bind_global n v (logged l s)))"
| "exec (SetAttribute e a r) s =
     bind_err (eval (globals s) r) (\<lambda>(w, l1).
     bind_err (eval (globals s) e) (\<lambda>(v, l2).
       case v of
         PyExt x \<Rightarrow> Inr (logged (l1 @ l2 @ [AttrSet x a w]) s)
       | _ \<Rightarrow> Inl Unmodelled))"
| "exec (Expr e) s = bind_err (eval (globals s) e) (\<lambda>(v, l). Inr (logged l s))"
| "exec (FunDef f) s = Inr (bind_global f (PyFun f) s)"

text \<open>
  A list of statements runs in order and stops at the first error. The errors of the
  model are those of the notebook's own code; a call into a library is taken to return
  (an exception raised inside a library would end the run at that statement).
\<close>

fun run :: "stmt list \<Rightarrow> nb_state \<Rightarrow> error + nb_state" where
  "run [] s = Inr s"
| "run (c # cs) s = bind_err (exec c s) (run cs)"

section \<open>The code cells\<close>

text \<open>
  One definition for each code cell, named after the position of the cell in the notebook
  file (counting the markdown cells, from 0), with the source of the cell above it. The
  bodies of the two functions of cell 14 are the definitions \<open>Ms_func\<close> and \<open>init_m\<close>
  above; in the cell, \<^verbatim>\<open>def\<close> only binds their names. The notebook hands the float
  literals of the cells on to the libraries and compares none of them; they are written
  as the decimals of the source.
\<close>

text \<open>
  \<^verbatim>\<open>
  %config InlineBackend.figure_formats = ['svg']
  import holoviews as hv
  hv.extension('bokeh')
  hv.output(widget_location='bottom')
  \<close>
\<close>

definition cell1 :: "stmt list" where
  "cell1 =
    [Magic ''%config'',
     Import ''holoviews'' ''hv'',
     Expr (Call (Attribute (Name ''hv'') ''extension'') [Str ''bokeh''] []),
     Expr
       (Call (Attribute (Name ''hv'') ''output'') [] [(''widget_location'', Str ''bottom'')])]"

text \<open>
  \<^verbatim>\<open>
  import discretisedfield as df
  import micromagneticmodel as mm
  import numpy as np
  import oommfc as mc
  \<close>
\<close>

definition cell3 :: "stmt list" where
  "cell3 =
    [Import ''discretisedfield'' ''df'',
     Import ''micromagneticmodel'' ''mm'',
     Import ''numpy'' ''np'',
     Import ''oommfc'' ''mc'']"

text \<open>
  \<^verbatim>\<open>
  system = mm.System(name='dw_pair_conversion')
  \<close>
\<close>

definition cell5 :: "stmt list" where
  "cell5 =
    [Assign ''system''
       (Call (Attribute (Name ''mm'') ''System'') [] [(''name'', Str ''dw_pair_conversion'')])]"

text \<open>
  \<^verbatim>\<open>
  Ms = 5.8e5  # A/M
  A_ex = 15e-12  # J/m
  DMI_D = 3e-3  # J/m**2
  K = 0.6e6  # J/m**3
  u = (0, 0, 1)  # easy axis
  B_z = 100e-3  # T
  \<close>
\<close>

definition cell7 :: "stmt list" where
  "cell7 =
    [Assign ''Ms'' (Num (5.8 * 10 ^ 5)),
     Assign ''A_ex'' (Num (15 / 10 ^ 12)),
     Assign ''DMI_D'' (Num (3 / 10 ^ 3)),
     Assign ''K'' (Num (0.6 * 10 ^ 6)),
     Assign ''u'' (Tuple [Num 0, Num 0, Num 1]),
     Assign ''B_z'' (Num (100 / 10 ^ 3))]"

text \<open>
  \<^verbatim>\<open>
  system.energy = (
      mm.Exchange(A=A_ex)
      + mm.DMI(D=DMI_D, crystalclass='Cnv_z')
      + mm.UniaxialAnisotropy(K=K, u=u)
      + mm.Demag()
      + mm.Zeeman(H=(0, 0, B_z / mm.consts.mu0))
  )
  \<close>
\<close>

definition cell8 :: "stmt list" where
  "cell8 =
    [SetAttribute
       (Name ''system'')
       ''energy''
       (Add
          (Add
             (Add
                (Add
                   (Call (Attribute (Name ''mm'') ''Exchange'') [] [(''A'', Name ''A_ex'')])
                   (Call
                      (Attribute (Name ''mm'') ''DMI'')
                      []
                      [(''D'', Name ''DMI_D''), (''crystalclass'', Str ''Cnv_z'')]))
                (Call
                   (Attribute (Name ''mm'') ''UniaxialAnisotropy'')
                   []
                   [(''K'', Name ''K''), (''u'', Name ''u'')]))
             (Call (Attribute (Name ''mm'') ''Demag'') [] []))
          (Call
             (Attribute (Name ''mm'') ''Zeeman'')
             []
             [(''H'',
               Tuple
                 [Num 0,
                  Num 0,
                  Div (Name ''B_z'') (Attribute (Attribute (Name ''mm'') ''consts'') ''mu0'')])]))]"

text \<open>
  \<^verbatim>\<open>
  system.energy
  \<close>
\<close>

definition cell9 :: "stmt list" where
  "cell9 =
    [Expr (Attribute (Name ''system'') ''energy'')]"

text \<open>
  \<^verbatim>\<open>
  region = df.Region(p1=(-100e-9, -50e-9, -10e-9), p2=(200e-9, 50e-9, 0))
  mesh = df.Mesh(region=region, cell=(2.5e-9, 2.5e-9, 5e-9))
  \<close>
\<close>

definition cell11 :: "stmt list" where
  "cell11 =
    [Assign ''region''
       (Call
          (Attribute (Name ''df'') ''Region'')
          []
          [(''p1'',
            Tuple [Neg (Num (100 / 10 ^ 9)), Neg (Num (50 / 10 ^ 9)), Neg (Num (10 / 10 ^ 9))]),
           (''p2'', Tuple [Num (200 / 10 ^ 9), Num (50 / 10 ^ 9), Num 0])]),
     Assign ''mesh''
       (Call
          (Attribute (Name ''df'') ''Mesh'')
          []
          [(''region'', Name ''region''),
           (''cell'', Tuple [Num (2.5 / 10 ^ 9), Num (2.5 / 10 ^ 9), Num (5 / 10 ^ 9)])])]"

text \<open>
  \<^verbatim>\<open>
  mesh.mpl()  # MatPlotLib
  \<close>
\<close>

definition cell12 :: "stmt list" where
  "cell12 =
    [Expr (Call (Attribute (Name ''mesh'') ''mpl'') [] [])]"

text \<open>
  \<^verbatim>\<open>
  mesh.k3d()
  \<close>
\<close>

definition cell13 :: "stmt list" where
  "cell13 =
    [Expr (Call (Attribute (Name ''mesh'') ''k3d'') [] [])]"

text \<open>
  \<^verbatim>\<open>
  def Ms_func(p):
      x, y, z = p
      if x > 0 or abs(y) < 20e-9:
          return Ms
      return 0

  def init_m(p):
      x, y, z = p
      if -60e-9 < x < -20e-9:
          return (0, 0, -1)
      return (0, 0, 1)

  system.m = df.Field(mesh, dim=3, value=init_m, norm=Ms_func)
  \<close>
\<close>

definition cell14 :: "stmt list" where
  "cell14 =
    [FunDef ''Ms_func'',
     FunDef ''init_m'',
     SetAttribute
       (Name ''system'')
       ''m''
       (Call
          (Attribute (Name ''df'') ''Field'')
          [Name ''mesh'']
          [(''dim'', Num 3), (''value'', Name ''init_m''), (''norm'', Name ''Ms_func'')])]"

text \<open>
  \<^verbatim>\<open>
  system.m.plane('z').z.mpl()
  \<close>
\<close>

definition cell15 :: "stmt list" where
  "cell15 =
    [Expr
       (Call
          (Attribute
             (Attribute
                (Call (Attribute (Attribute (Name ''system'') ''m'') ''plane'') [Str ''z''] [])
                ''z'')
             ''mpl'')
          []
          [])]"

text \<open>
  \<^verbatim>\<open>
  md = mc.MinDriver()
  md.drive(system)
  \<close>
\<close>

definition cell17 :: "stmt list" where
  "cell17 =
    [Assign ''md'' (Call (Attribute (Name ''mc'') ''MinDriver'') [] []),
     Expr (Call (Attribute (Name ''md'') ''drive'') [Name ''system''] [])]"

text \<open>
  \<^verbatim>\<open>
  system.m.plane('z').z.mpl()
  \<close>
\<close>

definition cell18 :: "stmt list" where
  "cell18 =
    [Expr
       (Call
          (Attribute
             (Attribute
                (Call (Attribute (Attribute (Name ''system'') ''m'') ''plane'') [Str ''z''] [])
                ''z'')
             ''mpl'')
          []
          [])]"

text \<open>
  \<^verbatim>\<open>
  system.m.hv(kdims=['x', 'y'], vector_kw={'n': (45, 15)}, scalar_kw={'clim': (-Ms, Ms), 'cmap': 'coolwarm'})
  \<close>
\<close>

definition cell19 :: "stmt list" where
  "cell19 =
    [Expr
       (Call
          (Attribute (Attribute (Name ''system'') ''m'') ''hv'')
          []
          [(''kdims'', ListLit [Str ''x'', Str ''y'']),
           (''vector_kw'', DictLit [(Str ''n'', Tuple [Num 45, Num 15])]),
           (''scalar_kw'',
            DictLit
              [(Str ''clim'', Tuple [Neg (Name ''Ms''), Name ''Ms'']),
               (Str ''cmap'', Str ''coolwarm'')])])]"

text \<open>
  \<^verbatim>\<open>
  system.dynamics = mm.Precession(gamma0=mm.consts.gamma0) + mm.Damping(alpha=0.3) + mm.ZhangLi(u=300, beta=0.5)
  system.dynamics
  \<close>
\<close>

definition cell21 :: "stmt list" where
  "cell21 =
    [SetAttribute
       (Name ''system'')
       ''dynamics''
       (Add
          (Add
             (Call
                (Attribute (Name ''mm'') ''Precession'')
                []
                [(''gamma0'', Attribute (Attribute (Name ''mm'') ''consts'') ''gamma0'')])
             (Call (Attribute (Name ''mm'') ''Damping'') [] [(''alpha'', Num 0.3)]))
          (Call
             (Attribute (Name ''mm'') ''ZhangLi'')
             []
             [(''u'', Num 300), (''beta'', Num 0.5)])),
     Expr (Attribute (Name ''system'') ''dynamics'')]"

text \<open>
  \<^verbatim>\<open>
  td = mc.TimeDriver()
  td.drive(system, t=0.35e-9, n=200, verbose=2)
  \<close>
\<close>

definition cell22 :: "stmt list" where
  "cell22 =
    [Assign ''td'' (Call (Attribute (Name ''mc'') ''TimeDriver'') [] []),
     Expr
       (Call
          (Attribute (Name ''td'') ''drive'')
          [Name ''system'']
          [(''t'', Num (0.35 / 10 ^ 9)), (''n'', Num 200), (''verbose'', Num 2)])]"

text \<open>
  \<^verbatim>\<open>
  system.m.hv(kdims=['x', 'y'], vector_kw={'n': (45, 15)}, scalar_kw={'clim': (-Ms, Ms), 'cmap': 'coolwarm'})
  \<close>
\<close>

definition cell23 :: "stmt list" where
  "cell23 =
    [Expr
       (Call
          (Attribute (Attribute (Name ''system'') ''m'') ''hv'')
          []
          [(''kdims'', ListLit [Str ''x'', Str ''y'']),
           (''vector_kw'', DictLit [(Str ''n'', Tuple [Num 45, Num 15])]),
           (''scalar_kw'',
            DictLit
              [(Str ''clim'', Tuple [Neg (Name ''Ms''), Name ''Ms'']),
               (Str ''cmap'', Str ''coolwarm'')])])]"

text \<open>
  \<^verbatim>\<open>
  import micromagneticdata as mdata
  data = mdata.Data(system.name)
  \<close>
\<close>

definition cell25 :: "stmt list" where
  "cell25 =
    [Import ''micromagneticdata'' ''mdata'',
     Assign ''data''
       (Call (Attribute (Name ''mdata'') ''Data'') [Attribute (Name ''system'') ''name''] [])]"

text \<open>
  \<^verbatim>\<open>
  data.info
  \<close>
\<close>

definition cell26 :: "stmt list" where
  "cell26 =
    [Expr (Attribute (Name ''data'') ''info'')]"

text \<open>
  \<^verbatim>\<open>
  data[-1].hv(kdims=['x', 'y'],
              vdims=['x', 'y'],
              vector_kw={'n' : (45, 15)},
              scalar_kw = {'clim':(-Ms, Ms), 'cmap': 'coolwarm'})
  \<close>
\<close>

definition cell27 :: "stmt list" where
  "cell27 =
    [Expr
       (Call
          (Attribute (Subscript (Name ''data'') (Neg (Num 1))) ''hv'')
          []
          [(''kdims'', ListLit [Str ''x'', Str ''y'']),
           (''vdims'', ListLit [Str ''x'', Str ''y'']),
           (''vector_kw'', DictLit [(Str ''n'', Tuple [Num 45, Num 15])]),
           (''scalar_kw'',
            DictLit
              [(Str ''clim'', Tuple [Neg (Name ''Ms''), Name ''Ms'']),
               (Str ''cmap'', Str ''coolwarm'')])])]"

text \<open>
  \<^verbatim>\<open>
  md.drive(system)
  \<close>
\<close>

definition cell29 :: "stmt list" where
  "cell29 =
    [Expr (Call (Attribute (Name ''md'') ''drive'') [Name ''system''] [])]"

text \<open>
  \<^verbatim>\<open>
  system.m.hv(kdims=['x', 'y'], vector_kw={'n': (45, 15)}, scalar_kw={'clim': (-Ms, Ms), 'cmap': 'coolwarm'})
  \<close>
\<close>

definition cell30 :: "stmt list" where
  "cell30 =
    [Expr
       (Call
          (Attribute (Attribute (Name ''system'') ''m'') ''hv'')
          []
          [(''kdims'', ListLit [Str ''x'', Str ''y'']),
           (''vector_kw'', DictLit [(Str ''n'', Tuple [Num 45, Num 15])]),
           (''scalar_kw'',
            DictLit
              [(Str ''clim'', Tuple [Neg (Name ''Ms''), Name ''Ms'']),
               (Str ''cmap'', Str ''coolwarm'')])])]"

text \<open>
  \<^verbatim>\<open>
  import mag2exp
  \<close>
\<close>

definition cell31 :: "stmt list" where
  "cell31 =
    [Import ''mag2exp'' ''mag2exp'']"

text \<open>
  \<^verbatim>\<open>
  mfm_m_field = system.m.pad({'z': (0, 25)}, mode='constant')
  \<close>
\<close>

definition cell33 :: "stmt list" where
  "cell33 =
    [Assign ''mfm_m_field''
       (Call
          (Attribute (Attribute (Name ''system'') ''m'') ''pad'')
          [DictLit [(Str ''z'', Tuple [Num 0, Num 25])]]
          [(''mode'', Str ''constant'')])]"

text \<open>
  \<^verbatim>\<open>
  mfm_m_field.plane('y').z.mpl()
  \<close>
\<close>

definition cell34 :: "stmt list" where
  "cell34 =
    [Expr
       (Call
          (Attribute
             (Attribute
                (Call (Attribute (Name ''mfm_m_field'') ''plane'') [Str ''y''] [])
                ''z'')
             ''mpl'')
          []
          [])]"

text \<open>
  \<^verbatim>\<open>
  phase_shift = mag2exp.mfm.phase_shift(mfm_m_field, quality=650, k=3, tip_m=(0, 0, 1e-16))
  \<close>
\<close>

definition cell35 :: "stmt list" where
  "cell35 =
    [Assign ''phase_shift''
       (Call
          (Attribute (Attribute (Name ''mag2exp'') ''mfm'') ''phase_shift'')
          [Name ''mfm_m_field'']
          [(''quality'', Num 650),
           (''k'', Num 3),
           (''tip_m'', Tuple [Num 0, Num 0, Num (1 / 10 ^ 16)])])]"

text \<open>
  \<^verbatim>\<open>
  phase_shift.mesh.subregions = {
      'free': df.Region(p1=(-100e-9, -50e-9, 5e-9), p2=(200e-9, 50e-9, 100e-9))
  }
  \<close>
\<close>

definition cell36 :: "stmt list" where
  "cell36 =
    [SetAttribute
       (Attribute (Name ''phase_shift'') ''mesh'')
       ''subregions''
       (DictLit
          [(Str ''free'',
            Call
              (Attribute (Name ''df'') ''Region'')
              []
              [(''p1'',
                Tuple [Neg (Num (100 / 10 ^ 9)), Neg (Num (50 / 10 ^ 9)), Num (5 / 10 ^ 9)]),
               (''p2'', Tuple [Num (200 / 10 ^ 9), Num (50 / 10 ^ 9), Num (100 / 10 ^ 9)])])])]"

text \<open>
  \<^verbatim>\<open>
  phase_shift['free'].hv(kdims=['x', 'y'], scalar_kw={'cmap': 'gray'})
  \<close>
\<close>

definition cell37 :: "stmt list" where
  "cell37 =
    [Expr
       (Call
          (Attribute (Subscript (Name ''phase_shift'') (Str ''free'')) ''hv'')
          []
          [(''kdims'', ListLit [Str ''x'', Str ''y'']),
           (''scalar_kw'', DictLit [(Str ''cmap'', Str ''gray'')])])]"

text \<open>
  \<^verbatim>\<open>
  holo_image = mag2exp.x_ray.holography(system.m)
  \<close>
\<close>

definition cell39 :: "stmt list" where
  "cell39 =
    [Assign ''holo_image''
       (Call
          (Attribute (Attribute (Name ''mag2exp'') ''x_ray'') ''holography'')
          [Attribute (Name ''system'') ''m'']
          [])]"

text \<open>
  \<^verbatim>\<open>
  holo_image.mpl.scalar(cmap='RdBu', interpolation='spline16', symmetric_clim=True)
  \<close>
\<close>

definition cell40 :: "stmt list" where
  "cell40 =
    [Expr
       (Call
          (Attribute (Attribute (Name ''holo_image'') ''mpl'') ''scalar'')
          []
          [(''cmap'', Str ''RdBu''),
           (''interpolation'', Str ''spline16''),
           (''symmetric_clim'', TrueLit)])]"

text \<open>
  \<^verbatim>\<open>
  holo_image_2 = mag2exp.x_ray.holography(system.m, fwhm=(15e-9, 15e-9))
  \<close>
\<close>

definition cell41 :: "stmt list" where
  "cell41 =
    [Assign ''holo_image_2''
       (Call
          (Attribute (Attribute (Name ''mag2exp'') ''x_ray'') ''holography'')
          [Attribute (Name ''system'') ''m'']
          [(''fwhm'', Tuple [Num (15 / 10 ^ 9), Num (15 / 10 ^ 9)])])]"

text \<open>
  \<^verbatim>\<open>
  holo_image_2.mpl.scalar(cmap='RdBu', interpolation='spline16', symmetric_clim=True)
  \<close>
\<close>

definition cell42 :: "stmt list" where
  "cell42 =
    [Expr
       (Call
          (Attribute (Attribute (Name ''holo_image_2'') ''mpl'') ''scalar'')
          []
          [(''cmap'', Str ''RdBu''),
           (''interpolation'', Str ''spline16''),
           (''symmetric_clim'', TrueLit)])]"

text \<open>
  \<^verbatim>\<open>
  mag2exp.quick_plots.ltem_defocus(system.m, voltage=300e3, df_length=0.2e-3)
  \<close>
\<close>

definition cell44 :: "stmt list" where
  "cell44 =
    [Expr
       (Call
          (Attribute (Attribute (Name ''mag2exp'') ''quick_plots'') ''ltem_defocus'')
          [Attribute (Name ''system'') ''m'']
          [(''voltage'', Num (300 * 10 ^ 3)), (''df_length'', Num (0.2 / 10 ^ 3))])]"

text \<open>
  \<^verbatim>\<open>
  system.m.norm.k3d.nonzero()
  \<close>
\<close>

definition cell45 :: "stmt list" where
  "cell45 =
    [Expr
       (Call
          (Attribute
             (Attribute (Attribute (Attribute (Name ''system'') ''m'') ''norm'') ''k3d'')
             ''nonzero'')
          []
          [])]"

text \<open>
  \<^verbatim>\<open>
  field_rotator = df.FieldRotator(system.m)
  field_rotator.rotate("from_euler", seq="y", angles=10, degrees=True)
  field_rotator.field.norm.k3d.nonzero()
  \<close>
\<close>

definition cell46 :: "stmt list" where
  "cell46 =
    [Assign ''field_rotator''
       (Call (Attribute (Name ''df'') ''FieldRotator'') [Attribute (Name ''system'') ''m''] []),
     Expr
       (Call
          (Attribute (Name ''field_rotator'') ''rotate'')
          [Str ''from_euler'']
          [(''seq'', Str ''y''), (''angles'', Num 10), (''degrees'', TrueLit)]),
     Expr
       (Call
          (Attribute
             (Attribute
                (Attribute (Attribute (Name ''field_rotator'') ''field'') ''norm'')
                ''k3d'')
             ''nonzero'')
          []
          [])]"

text \<open>
  \<^verbatim>\<open>
  mag2exp.quick_plots.ltem_defocus(field_rotator.field, voltage=300e3, df_length=0.2e-3)
  \<close>
\<close>

definition cell47 :: "stmt list" where
  "cell47 =
    [Expr
       (Call
          (Attribute (Attribute (Name ''mag2exp'') ''quick_plots'') ''ltem_defocus'')
          [Attribute (Name ''field_rotator'') ''field'']
          [(''voltage'', Num (300 * 10 ^ 3)), (''df_length'', Num (0.2 / 10 ^ 3))])]"

text \<open>The code cells in the order of the notebook; a run executes them top to bottom.\<close>

definition notebook :: "stmt list list" where
  "notebook =
    [cell1, cell3, cell5, cell7, cell8, cell9, cell11, cell12, cell13, cell14, cell15,
     cell17, cell18, cell19, cell21, cell22, cell23, cell25, cell26, cell27, cell29,
     cell30, cell31, cell33, cell34, cell35, cell36, cell37, cell39, cell40, cell41,
     cell42, cell44, cell45, cell46, cell47]"

text \<open>The statements of the whole notebook, and a run of its first \<open>n\<close> statements.\<close>

definition program :: "stmt list" where
  "program = concat notebook"

definition run_upto :: "nat \<Rightarrow> error + nb_state" where
  "run_upto n = run (take n program) init_state"

text \<open>The complete run; its globals and its log (empty if the run fails).\<close>

definition final_globals :: globals where
  "final_globals = (case run program init_state of Inl e \<Rightarrow> Map.empty | Inr s \<Rightarrow> globals s)"


text \<open>The global names a statement binds.\<close>

fun targets :: "stmt \<Rightarrow> string list" where
  "targets (Import m n) = [n]"
| "targets (Assign n e) = [n]"
| "targets (FunDef f) = [f]"
| "targets c = []"

section \<open>Stages of the run\<close>






section \<open>Region and mesh\<close>











section \<open>Properties of the two predicates\<close>

lemma unpack3_position: "unpack3 (position x y z) = Inr (PyNum x, PyNum y, PyNum z)"
  by (simp add: unpack3_def position_def bind_err_def)

lemma Ms_func_position:
  "fst (Ms_func g (position x y z)) =
     (if 0 < x \<or> \<bar>y\<bar> < 20 / 10 ^ 9 then lookup g ''Ms'' else Inr (PyNum 0))"
  by (simp add: Ms_func_def unpack3_position bind_err_def py_or_def py_gt_def py_lt_def)

lemma init_m_position:
  "fst (init_m g (position x y z)) =
     Inr (if - float_60e_9 < x \<and> x < - float_20e_9
          then PyTuple [PyNum 0, PyNum 0, PyNum (- 1)]
          else PyTuple [PyNum 0, PyNum 0, PyNum 1])"
  by (simp add: init_m_def unpack3_position bind_err_def py_and_def py_lt_def)

text \<open>
  The thresholds are the binary64 values of the literals \<^verbatim>\<open>60e-9\<close> and \<^verbatim>\<open>20e-9\<close>,
  and \<open>float_20e_9_below\<close> is the float next below \<^verbatim>\<open>20e-9\<close>.
\<close>

lemma threshold_literals:
  "is_binary64_of 4533471823554859 76 (60 / 10 ^ 9)"
  "is_binary64_of 6044629098073146 78 (20 / 10 ^ 9)"
  "float_20e_9_below = b64 (6044629098073146 - 1) 78"
  by (simp_all add: is_binary64_of_def b64_def float_20e_9_below_def)

text \<open>The decimal threshold of \<open>Ms_func\<close> separates the same floats as the literal.\<close>

lemma decimal_20e_9_between:
  "float_20e_9_below < 20 / 10 ^ 9" "20 / 10 ^ 9 < float_20e_9"
  by (simp_all add: float_20e_9_below_def float_20e_9_def b64_def)

text \<open>The complete run leaves \<^verbatim>\<open>Ms\<close> bound to the value of cell 7.\<close>

lemma final_Ms: "final_globals ''Ms'' = Some (PyNum Ms_value)"
  by code_simp

text \<open>
  C1. With \<^verbatim>\<open>Ms\<close> bound to \<^verbatim>\<open>5.8e5\<close>, which is not zero: at every position
  \<open>(x, y, z)\<close> with \<open>x > 0\<close> or \<open>|y| < 20e-9\<close> (inside the film footprint)
  \<^verbatim>\<open>Ms_func\<close> returns \<^verbatim>\<open>Ms\<close>, and at every position with \<open>x \<le> 0\<close> and
  \<open>|y| \<ge> 20e-9\<close> (outside the footprint) it returns 0.
\<close>

theorem Ms_func_footprint:
  assumes "g ''Ms'' = Some (PyNum Ms_value)"
  shows "Ms_value \<noteq> 0
    \<and> (0 < x \<or> \<bar>y\<bar> < 20 / 10 ^ 9 \<longrightarrow>
         fst (Ms_func g (position x y z)) = Inr (PyNum Ms_value))
    \<and> (x \<le> 0 \<and> 20 / 10 ^ 9 \<le> \<bar>y\<bar> \<longrightarrow>
         fst (Ms_func g (position x y z)) = Inr (PyNum 0))"
  using assms by (auto simp: Ms_func_position lookup_def Ms_value_def)

theorem Ms_func_footprint_witness:
  "final_globals ''Ms'' = Some (PyNum Ms_value)
   \<and> Ms_value \<noteq> 0
   \<and> (0 < (10 / 10 ^ 9 :: real) \<or> \<bar>30 / 10 ^ 9 :: real\<bar> < 20 / 10 ^ 9)
   \<and> fst (Ms_func final_globals (position (10 / 10 ^ 9) (30 / 10 ^ 9) (- (5 / 10 ^ 9))))
       = Inr (PyNum Ms_value)
   \<and> (- (10 / 10 ^ 9) \<le> (0::real) \<and> 20 / 10 ^ 9 \<le> \<bar>30 / 10 ^ 9 :: real\<bar>)
   \<and> fst (Ms_func final_globals (position (- (10 / 10 ^ 9)) (30 / 10 ^ 9) (- (5 / 10 ^ 9))))
       = Inr (PyNum 0)"
  using Ms_func_footprint [of final_globals "10 / 10 ^ 9" "30 / 10 ^ 9" "- (5 / 10 ^ 9)"]
    Ms_func_footprint [of final_globals "- (10 / 10 ^ 9)" "30 / 10 ^ 9" "- (5 / 10 ^ 9)"]
    final_Ms
  by simp

text \<open>
  C2. At every position \<open>(x, y, z)\<close> with \<open>-60e-9 < x < -20e-9\<close> \<^verbatim>\<open>init_m\<close> returns
  the reversed easy-axis direction \<open>(0, 0, -1)\<close>, and at every other position it returns
  the forward direction \<open>(0, 0, 1)\<close>. The bounds are the values of the literals.
\<close>

theorem init_m_direction:
  "(- float_60e_9 < x \<and> x < - float_20e_9 \<longrightarrow>
      fst (init_m g (position x y z)) = Inr (PyTuple [PyNum 0, PyNum 0, PyNum (- 1)]))
   \<and> (\<not> (- float_60e_9 < x \<and> x < - float_20e_9) \<longrightarrow>
      fst (init_m g (position x y z)) = Inr (PyTuple [PyNum 0, PyNum 0, PyNum 1]))"
  by (simp add: init_m_position)

text \<open>
  Inside the range at \<open>x = -40e-9\<close> (twice the float \<^verbatim>\<open>-20e-9\<close>), outside it at
  \<open>x = 0\<close>.
\<close>

theorem init_m_direction_witness:
  "(- float_60e_9 < - (2 * float_20e_9) \<and> - (2 * float_20e_9) < - float_20e_9)
   \<and> fst (init_m final_globals (position (- (2 * float_20e_9)) 0 0))
       = Inr (PyTuple [PyNum 0, PyNum 0, PyNum (- 1)])
   \<and> \<not> (- float_60e_9 < 0 \<and> 0 < - float_20e_9)
   \<and> fst (init_m final_globals (position 0 0 0))
       = Inr (PyTuple [PyNum 0, PyNum 0, PyNum 1])"
  using init_m_direction [of "- (2 * float_20e_9)" final_globals 0 0]
    init_m_direction [of 0 final_globals 0 0]
  by (simp add: float_60e_9_def float_20e_9_def b64_def)

text \<open>
  C4. At every position \<^verbatim>\<open>init_m\<close> returns a triple of numbers whose Euclidean
  magnitude is 1.
\<close>

theorem init_m_unit_vector:
  "\<exists>a b c. fst (init_m g (position x y z)) = Inr (PyTuple [PyNum a, PyNum b, PyNum c])
     \<and> sqrt (a\<^sup>2 + b\<^sup>2 + c\<^sup>2) = 1"
  by (simp add: init_m_position)

text \<open>
  C6. Two evaluations of \<^verbatim>\<open>Ms_func\<close>, or of \<^verbatim>\<open>init_m\<close>, on the same argument, in
  global namespaces that agree on \<^verbatim>\<open>Ms\<close>, return the same result (value or error), and
  each evaluation leaves the global namespace as it found it.
\<close>

theorem predicates_pure:
  assumes "g ''Ms'' = g' ''Ms''"
  shows "fst (Ms_func g p) = fst (Ms_func g' p) \<and> fst (init_m g p) = fst (init_m g' p)
       \<and> snd (Ms_func g p) = g \<and> snd (init_m g p) = g"
  using assms by (simp add: Ms_func_def init_m_def lookup_def cong: if_cong)

theorem predicates_pure_witness:
  "final_globals ''Ms'' = [''Ms'' \<mapsto> PyNum Ms_value] ''Ms''
   \<and> fst (Ms_func final_globals (position 1 2 3))
       = fst (Ms_func [''Ms'' \<mapsto> PyNum Ms_value] (position 1 2 3))
   \<and> fst (init_m final_globals (position 1 2 3))
       = fst (init_m [''Ms'' \<mapsto> PyNum Ms_value] (position 1 2 3))
   \<and> snd (Ms_func final_globals (position 1 2 3)) = final_globals
   \<and> snd (init_m final_globals (position 1 2 3)) = final_globals"
  using predicates_pure [of final_globals "[''Ms'' \<mapsto> PyNum Ms_value]" "position 1 2 3"]
    final_Ms
  by simp

text \<open>
  C9. The comparisons are strict. At \<open>x = -60e-9\<close> and at \<open>x = -20e-9\<close> (the floats the
  literals denote) \<^verbatim>\<open>init_m\<close> returns the forward direction \<open>(0, 0, 1)\<close>, whereas at
  every \<open>x\<close> strictly between them it returns \<open>(0, 0, -1)\<close>. At a position with
  \<open>x \<le> 0\<close> and \<open>|y| = 20e-9\<close> \<^verbatim>\<open>Ms_func\<close> returns 0, whereas at every position with
  \<open>|y|\<close> up to the float next below \<^verbatim>\<open>20e-9\<close> it returns \<^verbatim>\<open>Ms\<close> (when \<^verbatim>\<open>Ms\<close> is
  bound to \<^verbatim>\<open>5.8e5\<close>).
\<close>

theorem predicates_strict_at_boundary:
  "fst (init_m g (position (- float_60e_9) y z)) = Inr (PyTuple [PyNum 0, PyNum 0, PyNum 1])
   \<and> fst (init_m g (position (- float_20e_9) y z)) = Inr (PyTuple [PyNum 0, PyNum 0, PyNum 1])
   \<and> (- float_60e_9 < x \<and> x < - float_20e_9 \<longrightarrow>
        fst (init_m g (position x y z)) = Inr (PyTuple [PyNum 0, PyNum 0, PyNum (- 1)]))
   \<and> (x' \<le> 0 \<and> \<bar>y'\<bar> = float_20e_9 \<longrightarrow>
        fst (Ms_func g (position x' y' z)) = Inr (PyNum 0))
   \<and> (g ''Ms'' = Some (PyNum Ms_value) \<and> \<bar>y'\<bar> \<le> float_20e_9_below \<longrightarrow>
        fst (Ms_func g (position x' y' z)) = Inr (PyNum Ms_value))"
proof -
  have "\<bar>y'\<bar> = float_20e_9 \<Longrightarrow> \<not> \<bar>y'\<bar> < 20 / 10 ^ 9"
    using decimal_20e_9_between(2) by simp
  moreover have "\<bar>y'\<bar> \<le> float_20e_9_below \<Longrightarrow> \<bar>y'\<bar> < 20 / 10 ^ 9"
    using decimal_20e_9_between(1) by simp
  ultimately show ?thesis
    by (auto simp: init_m_position Ms_func_position lookup_def)
qed

text \<open>
  At the boundary floats, at \<open>x = -40e-9\<close> inside the range of \<^verbatim>\<open>init_m\<close>, at
  \<open>y = -20e-9\<close> with \<open>x = -20e-9\<close>, and at the float next below \<^verbatim>\<open>20e-9\<close>.
\<close>

theorem predicates_strict_at_boundary_witness:
  "fst (init_m final_globals (position (- float_60e_9) 0 0))
       = Inr (PyTuple [PyNum 0, PyNum 0, PyNum 1])
   \<and> fst (init_m final_globals (position (- float_20e_9) 0 0))
       = Inr (PyTuple [PyNum 0, PyNum 0, PyNum 1])
   \<and> (- float_60e_9 < - (2 * float_20e_9) \<and> - (2 * float_20e_9) < - float_20e_9)
   \<and> fst (init_m final_globals (position (- (2 * float_20e_9)) 0 0))
       = Inr (PyTuple [PyNum 0, PyNum 0, PyNum (- 1)])
   \<and> (- float_20e_9 \<le> 0 \<and> \<bar>- float_20e_9\<bar> = float_20e_9)
   \<and> fst (Ms_func final_globals (position (- float_20e_9) (- float_20e_9) 0)) = Inr (PyNum 0)
   \<and> (final_globals ''Ms'' = Some (PyNum Ms_value) \<and> \<bar>float_20e_9_below\<bar> \<le> float_20e_9_below)
   \<and> fst (Ms_func final_globals (position (- float_20e_9) float_20e_9_below 0))
       = Inr (PyNum Ms_value)"
  using predicates_strict_at_boundary
      [of final_globals 0 0 "- (2 * float_20e_9)" "- float_20e_9" "- float_20e_9"]
    predicates_strict_at_boundary
      [of final_globals 0 0 "- (2 * float_20e_9)" "- float_20e_9" float_20e_9_below]
    final_Ms
  by (simp add: float_60e_9_def float_20e_9_def float_20e_9_below_def b64_def)

text \<open>
  C10. The result of \<^verbatim>\<open>init_m\<close> does not depend on the \<open>y\<close> and \<open>z\<close> components of
  the position, and the result of \<^verbatim>\<open>Ms_func\<close> does not depend on the \<open>z\<close> component.
\<close>

theorem predicates_independent:
  "fst (init_m g (position x y z)) = fst (init_m g' (position x y' z'))
   \<and> fst (Ms_func g (position x y z)) = fst (Ms_func g (position x y z'))"
  by (simp add: init_m_position Ms_func_position)

section \<open>Properties of the run\<close>

text \<open>A statement changes the binding of no name that is not among its targets.\<close>

lemma exec_globals:
  assumes "exec c s = Inr s'" and "x \<notin> set (targets c)"
  shows "globals s' x = globals s x"
  using assms
  by (cases c)
     (auto simp: bind_err_def bind_global_def logged_def
           split: sum.splits prod.splits pyval.splits)

lemma run_globals:
  assumes "run cs s = Inr s'" and "x \<notin> set (concat (map targets cs))"
  shows "globals s' x = globals s x"
  using assms
proof (induction cs arbitrary: s)
  case Nil
  then show ?case by simp
next
  case (Cons c cs)
  from Cons.prems(1) obtain t where t: "exec c s = Inr t" and rest: "run cs t = Inr s'"
    by (auto simp: bind_err_def split: sum.splits)
  from Cons.prems(2) have "x \<notin> set (targets c)" and "x \<notin> set (concat (map targets cs))"
    by auto
  with t rest Cons.IH show ?case
    by (metis exec_globals)
qed

lemma run_append: "run (xs @ ys) s = bind_err (run xs s) (run ys)"
  by (induction xs arbitrary: s) (simp_all add: bind_err_def split: sum.splits)

text \<open>The complete run raises no error of the notebook's own.\<close>

lemma run_program_ok: "\<not> isl (run program init_state)"
  by code_simp

text \<open>
  A name that is bound after \<open>m\<close> statements and is the target of no later statement has
  the same value after any \<open>n \<ge> m\<close> statements.
\<close>

lemma kept_from:
  assumes at_m: "(case run_upto m of Inl e \<Rightarrow> None | Inr s \<Rightarrow> globals s x) = Some v"
    and later: "x \<notin> set (concat (map targets (drop m program)))"
    and "m \<le> n"
  shows "\<exists>s. run_upto n = Inr s \<and> globals s x = Some v"
proof -
  from at_m obtain sm where sm: "run_upto m = Inr sm" and vm: "globals sm x = Some v"
    by (auto split: sum.splits)
  from run_program_ok obtain sf where "run program init_state = Inr sf"
    by (cases "run program init_state") auto
  then have "bind_err (run (take n program) init_state) (run (drop n program)) = Inr sf"
    using run_append [of "take n program" "drop n program" init_state] by simp
  then obtain s where s: "run_upto n = Inr s"
    by (auto simp: run_upto_def bind_err_def split: sum.splits)
  let ?mid = "take (n - m) (drop m program)"
  from \<open>m \<le> n\<close> have "take n program = take m program @ ?mid"
    using take_add [of m "n - m" program] by simp
  then have "run_upto n = bind_err (run_upto m) (run ?mid)"
    by (simp add: run_upto_def run_append)
  with s sm have mid: "run ?mid sm = Inr s"
    by (simp add: bind_err_def)
  have "set (concat (map targets ?mid)) \<subseteq> set (concat (map targets (drop m program)))"
    using set_take_subset [of "n - m" "drop m program"] by auto
  with later have "x \<notin> set (concat (map targets ?mid))"
    by blast
  with mid have "globals s x = globals sm x"
    by (rule run_globals)
  with s vm show ?thesis
    by simp
qed

subsection \<open>The predicates return\<close>

text \<open>
  Cell 14 is complete after 23 statements: both functions are bound, and \<^verbatim>\<open>Ms\<close> has
  been bound since cell 7. No later statement binds any of the three names again.
\<close>

lemma funs_at_23:
  "(case run_upto 23 of Inl e \<Rightarrow> None | Inr s \<Rightarrow> globals s ''Ms_func'')
     = Some (PyFun ''Ms_func'')"
  "(case run_upto 23 of Inl e \<Rightarrow> None | Inr s \<Rightarrow> globals s ''init_m'')
     = Some (PyFun ''init_m'')"
  "(case run_upto 23 of Inl e \<Rightarrow> None | Inr s \<Rightarrow> globals s ''Ms'')
     = Some (PyNum Ms_value)"
  by code_simp+

lemma later_targets_23:
  "set (concat (map targets (drop 23 program))) \<inter> {''Ms'', ''Ms_func'', ''init_m''} = {}"
  by code_simp

lemma call_Ms_func:
  assumes "g ''Ms_func'' = Some (PyFun ''Ms_func'')" and "g ''Ms'' = Some (PyNum Ms_value)"
  shows "\<exists>v. eval g (Call (Name ''Ms_func'') [Tuple [Num x, Num y, Num z]] []) = Inr (v, [])"
  using assms
  by (simp add: bind_err_def lookup_def call_def_def apply_def_def
        Ms_func_position [unfolded position_def])

lemma call_init_m:
  assumes "g ''init_m'' = Some (PyFun ''init_m'')"
  shows "\<exists>v. eval g (Call (Name ''init_m'') [Tuple [Num x, Num y, Num z]] []) = Inr (v, [])"
  using assms
  by (simp add: bind_err_def lookup_def call_def_def apply_def_def
        init_m_position [unfolded position_def])

text \<open>
  C5. At every point of the run from the end of cell 14 on (after \<open>n \<ge> 23\<close> statements), the
  run so far has raised no error, and for every triple of real numbers \<open>(x, y, z)\<close> the
  calls \<^verbatim>\<open>Ms_func((x, y, z))\<close> and \<^verbatim>\<open>init_m((x, y, z))\<close> each return a value: the name
  lookup, the unpacking, the comparisons and the read of \<^verbatim>\<open>Ms\<close> all succeed.
\<close>

theorem predicates_return:
  assumes "23 \<le> n"
  shows "\<exists>s. run_upto n = Inr s
     \<and> (\<exists>v. eval (globals s) (Call (Name ''Ms_func'') [Tuple [Num x, Num y, Num z]] [])
            = Inr (v, []))
     \<and> (\<exists>v. eval (globals s) (Call (Name ''init_m'') [Tuple [Num x, Num y, Num z]] [])
            = Inr (v, []))
     \<and> (\<exists>v. fst (Ms_func (globals s) (position x y z)) = Inr v)
     \<and> (\<exists>v. fst (init_m (globals s) (position x y z)) = Inr v)"
proof -
  from later_targets_23 have nt:
    "''Ms'' \<notin> set (concat (map targets (drop 23 program)))"
    "''Ms_func'' \<notin> set (concat (map targets (drop 23 program)))"
    "''init_m'' \<notin> set (concat (map targets (drop 23 program)))"
    by blast+
  from kept_from [OF funs_at_23(1) nt(2) assms] kept_from [OF funs_at_23(2) nt(3) assms]
    kept_from [OF funs_at_23(3) nt(1) assms]
  obtain s where s: "run_upto n = Inr s"
    and f1: "globals s ''Ms_func'' = Some (PyFun ''Ms_func'')"
    and f2: "globals s ''init_m'' = Some (PyFun ''init_m'')"
    and ms: "globals s ''Ms'' = Some (PyNum Ms_value)"
    by auto
  have "\<exists>v. fst (Ms_func (globals s) (position x y z)) = Inr v"
    using ms by (simp add: Ms_func_position lookup_def)
  moreover have "\<exists>v. fst (init_m (globals s) (position x y z)) = Inr v"
    by (simp add: init_m_position)
  ultimately show ?thesis
    using s f1 f2 ms call_Ms_func [of "globals s" x y z] call_init_m [of "globals s" x y z]
    by blast
qed

theorem predicates_return_witness:
  "(23::nat) \<le> 56
   \<and> (\<exists>s. run_upto 56 = Inr s
     \<and> (\<exists>v. eval (globals s) (Call (Name ''Ms_func'') [Tuple [Num 1, Num 2, Num 3]] [])
            = Inr (v, []))
     \<and> (\<exists>v. eval (globals s) (Call (Name ''init_m'') [Tuple [Num 1, Num 2, Num 3]] [])
            = Inr (v, []))
     \<and> (\<exists>v. fst (Ms_func (globals s) (position 1 2 3)) = Inr v)
     \<and> (\<exists>v. fst (init_m (globals s) (position 1 2 3)) = Inr v))"
  using predicates_return [of 56 1 2 3] by simp

subsection \<open>The parameters are bound once and kept\<close>












subsection \<open>The order of the stages\<close>



subsection \<open>The mesh\<close>

text \<open>
  The components of \<open>region_p1\<close>, \<open>region_p2\<close> and \<open>mesh_cell\<close> are the binary64 values
  of the literals of cell 11 (the last component of \<^verbatim>\<open>p2\<close> is the int 0).
\<close>

lemma mesh_literals:
  "is_binary64_of 7555786372591432 76 (100 / 10 ^ 9)"
  "is_binary64_of 7555786372591432 77 (50 / 10 ^ 9)"
  "is_binary64_of 6044629098073146 79 (10 / 10 ^ 9)"
  "is_binary64_of 7555786372591432 75 (200 / 10 ^ 9)"
  "is_binary64_of 6044629098073146 81 (2.5 / 10 ^ 9)"
  "is_binary64_of 6044629098073146 80 (5 / 10 ^ 9)"
  by (simp_all add: is_binary64_of_def b64_def)



end
